theory Spec2Isabelle
  imports Complex_Main
begin

section \<open>Vectors\<close>

text \<open>
  JavaScript numbers are modelled as real numbers: every arithmetic operation, square
  root, sine and cosine is exact, and NaN and the infinities do not occur. A position,
  in the source a three-element array \<open>[x, y, z]\<close> or a \<open>THREE.Vector3\<close>,
  is a triple of reals.
\<close>

type_synonym vec3 = "real \<times> real \<times> real"

text \<open>
  The methods of \<open>THREE.Vector3\<close> that the page calls. The library mutates the
  receiver and returns it; the page calls them on clones, or on a vector it does not
  read again, so each is a function to the new value. \<open>normalize\<close> is
  \<open>divideScalar(length() || 1)\<close>: the zero vector, whose length is falsy, is divided
  by 1; \<open>divideScalar(s)\<close> is \<open>multiplyScalar(1 / s)\<close>.
\<close>

fun v3_dot :: "vec3 \<Rightarrow> vec3 \<Rightarrow> real" where
  "v3_dot (x1, y1, z1) (x2, y2, z2) = x1 * x2 + y1 * y2 + z1 * z2"

fun v3_add :: "vec3 \<Rightarrow> vec3 \<Rightarrow> vec3" where
  "v3_add (x1, y1, z1) (x2, y2, z2) = (x1 + x2, y1 + y2, z1 + z2)"

fun v3_sub :: "vec3 \<Rightarrow> vec3 \<Rightarrow> vec3" where
  "v3_sub (x1, y1, z1) (x2, y2, z2) = (x1 - x2, y1 - y2, z1 - z2)"

fun v3_multiplyScalar :: "vec3 \<Rightarrow> real \<Rightarrow> vec3" where
  "v3_multiplyScalar (x, y, z) s = (x * s, y * s, z * s)"

fun v3_length :: "vec3 \<Rightarrow> real" where
  "v3_length (x, y, z) = sqrt (x * x + y * y + z * z)"

definition v3_divideScalar :: "vec3 \<Rightarrow> real \<Rightarrow> vec3" where
  "v3_divideScalar v s = v3_multiplyScalar v (1 / s)"

definition v3_normalize :: "vec3 \<Rightarrow> vec3" where
  "v3_normalize v = v3_divideScalar v (if v3_length v = 0 then 1 else v3_length v)"

section \<open>Geo projection\<close>

text \<open>
  \<open>latLonToVec3(lat, lon, radius = 1.001)\<close>, lines 64 to 72 of the globe page. The
  default argument is a second constant.
\<close>

definition latLonToVec3 :: "real \<Rightarrow> real \<Rightarrow> real \<Rightarrow> vec3" where
  "latLonToVec3 lat lon radius =
     (let phi = (90 - lat) * (pi / 180);
          theta = (lon + 180) * (pi / 180)
      in (- radius * sin phi * cos theta,
          radius * cos phi,
          radius * sin phi * sin theta))"

definition latLonToVec3_default :: "real \<Rightarrow> real \<Rightarrow> vec3" where
  "latLonToVec3_default lat lon = latLonToVec3 lat lon 1.001"

section \<open>Cluster layout\<close>

text \<open>
  \<open>calculateOffsetPosition(basePosition, index, total)\<close>, lines 126 to 149. The index
  and the total are an array index and an array length, hence naturals; their quotient
  is a division of numbers. The parameter \<open>total\<close> is written \<open>total_n\<close>.
\<close>

definition calculateOffsetPosition :: "vec3 \<Rightarrow> nat \<Rightarrow> nat \<Rightarrow> vec3" where
  "calculateOffsetPosition basePosition index total_n =
     (if total_n \<le> 1 then basePosition
      else
        let angle = (real index / real total_n) * pi * 2;
            radius = 0.01;
            offsetX = cos angle * radius;
            offsetZ = sin angle * radius;
            pos = basePosition;
            offset = (offsetX, 0, offsetZ);
            normal = v3_normalize pos;
            tangent = v3_sub offset (v3_multiplyScalar normal (v3_dot offset normal));
            finalPos = v3_normalize (v3_add pos tangent)
        in finalPos)"

text \<open>
  The positions of one group, as line 165 computes them inside the \<open>map\<close> over the
  group's members: one call per index below the group's size.
\<close>

definition offsetPositions :: "vec3 \<Rightarrow> nat \<Rightarrow> vec3 list" where
  "offsetPositions basePosition total_n =
     map (\<lambda>index. calculateOffsetPosition basePosition index total_n) [0..<total_n]"

section \<open>Cluster layout, statement by statement\<close>

text \<open>
  The same function over an explicit machine state, to decide what a call depends on
  and what it changes. The state holds the \<open>THREE.Vector3\<close> objects allocated so far, a
  reference being the index of its object, and the two ambient sources a script can
  draw on without naming them among its arguments: the state of the generator behind
  \<open>Math.random\<close> and the clock behind \<open>Date.now\<close>.
\<close>

record js_state =
  heap :: "vec3 list"
  random_state :: nat
  clock :: real

text \<open>
  The library's methods on references. \<open>new\<close> and \<open>clone\<close> allocate; \<open>normalize\<close>,
  \<open>multiplyScalar\<close>, \<open>sub\<close> and \<open>add\<close> overwrite the receiver and return it; \<open>dot\<close>
  only reads.
\<close>

definition new_Vector3 :: "vec3 \<Rightarrow> js_state \<Rightarrow> nat \<times> js_state" where
  "new_Vector3 v s = (length (heap s), s \<lparr> heap := heap s @ [v] \<rparr>)"

definition ref_clone :: "nat \<Rightarrow> js_state \<Rightarrow> nat \<times> js_state" where
  "ref_clone a s = new_Vector3 (heap s ! a) s"

definition ref_normalize :: "nat \<Rightarrow> js_state \<Rightarrow> nat \<times> js_state" where
  "ref_normalize a s = (a, s \<lparr> heap := (heap s)[a := v3_normalize (heap s ! a)] \<rparr>)"

definition ref_multiplyScalar :: "nat \<Rightarrow> real \<Rightarrow> js_state \<Rightarrow> nat \<times> js_state" where
  "ref_multiplyScalar a k s =
     (a, s \<lparr> heap := (heap s)[a := v3_multiplyScalar (heap s ! a) k] \<rparr>)"

definition ref_sub :: "nat \<Rightarrow> nat \<Rightarrow> js_state \<Rightarrow> nat \<times> js_state" where
  "ref_sub a b s = (a, s \<lparr> heap := (heap s)[a := v3_sub (heap s ! a) (heap s ! b)] \<rparr>)"

definition ref_add :: "nat \<Rightarrow> nat \<Rightarrow> js_state \<Rightarrow> nat \<times> js_state" where
  "ref_add a b s = (a, s \<lparr> heap := (heap s)[a := v3_add (heap s ! a) (heap s ! b)] \<rparr>)"

definition ref_dot :: "nat \<Rightarrow> nat \<Rightarrow> js_state \<Rightarrow> real" where
  "ref_dot a b s = v3_dot (heap s ! a) (heap s ! b)"

text \<open>
  Lines 126 to 149 in the order in which the statements and the subexpressions run:
  the receiver \<open>offset.clone()\<close> before the argument of \<open>sub\<close>, and \<open>offset.dot(normal)\<close>
  before \<open>normal.multiplyScalar\<close> overwrites \<open>normal\<close>. The result is the array of the
  three coordinates of \<open>finalPos\<close>, together with the state after the call.
\<close>

definition calculateOffsetPosition_exec ::
    "vec3 \<Rightarrow> nat \<Rightarrow> nat \<Rightarrow> js_state \<Rightarrow> vec3 \<times> js_state" where
  "calculateOffsetPosition_exec basePosition index total_n s =
     (if total_n \<le> 1 then (basePosition, s)
      else
        let angle = (real index / real total_n) * pi * 2;
            radius = 0.01;
            offsetX = cos angle * radius;
            offsetZ = sin angle * radius;
            (pos, s1) = new_Vector3 basePosition s;
            (offset, s2) = new_Vector3 (offsetX, 0, offsetZ) s1;
            (pos_clone, s3) = ref_clone pos s2;
            (normal, s4) = ref_normalize pos_clone s3;
            (offset_clone, s5) = ref_clone offset s4;
            d = ref_dot offset normal s5;
            (scaled, s6) = ref_multiplyScalar normal d s5;
            (tangent, s7) = ref_sub offset_clone scaled s6;
            (pos_clone2, s8) = ref_clone pos s7;
            (moved, s9) = ref_add pos_clone2 tangent s8;
            (finalPos, s10) = ref_normalize moved s9
        in (heap s10 ! finalPos, s10))"

section \<open>JavaScript values\<close>

text \<open>
  The values that a parsed JSON document holds, and \<open>undefined\<close> for a property that is
  absent. An object is the list of its own properties in insertion order. Truthiness is
  the language's: \<open>undefined\<close>, \<open>null\<close>, \<open>false\<close>, \<open>0\<close> and the empty string are falsy,
  everything else is truthy.
\<close>

datatype jsval =
    JUndefined
  | JNull
  | JBool bool
  | JNum real
  | JStr string
  | JArr "jsval list"
  | JObj "(string \<times> jsval) list"

type_synonym jsobject = "(string \<times> jsval) list"

fun truthy :: "jsval \<Rightarrow> bool" where
  "truthy JUndefined = False"
| "truthy JNull = False"
| "truthy (JBool b) = b"
| "truthy (JNum n) = (n \<noteq> 0)"
| "truthy (JStr s) = (s \<noteq> [])"
| "truthy (JArr xs) = True"
| "truthy (JObj ps) = True"

text \<open>\<open>a || b\<close> on values.\<close>

definition js_or :: "jsval \<Rightarrow> jsval \<Rightarrow> jsval" where
  "js_or a b = (if truthy a then a else b)"

text \<open>Reading a property \<open>obj.k\<close> of an object: \<open>undefined\<close> when there is none.\<close>

definition get_prop :: "jsobject \<Rightarrow> string \<Rightarrow> jsval" where
  "get_prop obj k = (case map_of obj k of None \<Rightarrow> JUndefined | Some v \<Rightarrow> v)"

text \<open>
  Optional chaining, \<open>v?.[0]\<close> and \<open>v?.k\<close> for a key \<open>k\<close> that is no built-in property
  of arrays and strings (the handler reads \<open>url\<close>): \<open>undefined\<close> on \<open>undefined\<close> and
  \<open>null\<close>, the element or property when there is one, \<open>undefined\<close> otherwise.
\<close>

fun opt_index0 :: "jsval \<Rightarrow> jsval" where
  "opt_index0 (JArr xs) = (case xs of [] \<Rightarrow> JUndefined | x # _ \<Rightarrow> x)"
| "opt_index0 (JStr s) = (case s of [] \<Rightarrow> JUndefined | c # _ \<Rightarrow> JStr [c])"
| "opt_index0 (JObj ps) = get_prop ps ''0''"
| "opt_index0 _ = JUndefined"

fun opt_prop :: "jsval \<Rightarrow> string \<Rightarrow> jsval" where
  "opt_prop (JObj ps) k = get_prop ps k"
| "opt_prop _ k = JUndefined"

text \<open>
  What a value is after \<open>JSON.stringify\<close> on the server and \<open>JSON.parse\<close> on the
  client: a property whose value is \<open>undefined\<close> is left out of its object, an array
  element that is \<open>undefined\<close> becomes \<open>null\<close>, everything else is kept, in order.
\<close>

fun json_value :: "jsval \<Rightarrow> jsval"
  and json_elements :: "jsval list \<Rightarrow> jsval list"
  and json_properties :: "(string \<times> jsval) list \<Rightarrow> (string \<times> jsval) list" where
  "json_value (JArr xs) = JArr (json_elements xs)"
| "json_value (JObj ps) = JObj (json_properties ps)"
| "json_value JUndefined = JUndefined"
| "json_value JNull = JNull"
| "json_value (JBool b) = JBool b"
| "json_value (JNum x) = JNum x"
| "json_value (JStr s) = JStr s"
| "json_elements [] = []"
| "json_elements (x # xs) =
     (if x = JUndefined then JNull else json_value x) # json_elements xs"
| "json_properties [] = []"
| "json_properties (p # ps) =
     (if snd p = JUndefined then json_properties ps
      else (fst p, json_value (snd p)) # json_properties ps)"

text \<open>
  \<open>String.prototype.toUpperCase\<close> on the ASCII letters; every other character is left
  as it is (airport codes are ASCII).
\<close>

definition upper_char :: "char \<Rightarrow> char" where
  "upper_char c =
     (let n = (of_char c :: nat) in if 97 \<le> n \<and> n \<le> 122 then char_of (n - 32) else c)"

definition toUpperCase :: "string \<Rightarrow> string" where
  "toUpperCase s = map upper_char s"

text \<open>
  \<open>Math.round\<close>: the nearest integer, a half rounded up. \<open>x || 0\<close> on a number that
  may be absent.
\<close>

definition Math_round :: "real \<Rightarrow> real" where
  "Math_round x = of_int \<lfloor>x + 1 / 2\<rfloor>"

definition or_zero :: "real option \<Rightarrow> real" where
  "or_zero v = (case v of None \<Rightarrow> 0 | Some x \<Rightarrow> x)"

section \<open>Data model of the globe page\<close>

text \<open>
  A neighbor as the page reads it: the four properties it accesses. \<open>airport\<close> is a
  string, or \<open>None\<close> when the property is absent or \<open>null\<close>;
  \<open>totalTimeHackatimeHours\<close> is a number, or \<open>None\<close> when absent or \<open>null\<close>;
  \<open>approvedFlightStipend\<close> and \<open>slackId\<close> are any value, since the page only tests the
  first for truthiness and passes the second on.
\<close>

record neighbor =
  slackId :: jsval
  airport :: "string option"
  approvedFlightStipend :: jsval
  totalTimeHackatimeHours :: "real option"

text \<open>
  An entry of \<open>airports.json\<close>: the codes are strings or absent, the coordinates are
  numbers or absent (on a number \<open>Number(...)\<close> is the identity).
\<close>

record airport_record =
  iata :: "string option"
  icao :: "string option"
  lat :: "real option"
  lon :: "real option"

text \<open>The properties that \<open>AirportDots\<close> hands to one \<open>BlinkingDot\<close>.\<close>

record marker =
  key :: jsval
  position :: vec3
  interactive :: bool
  color :: string

section \<open>Marker classification\<close>

text \<open>
  The \<open>color\<close> expression of lines 168 to 174. A comparison \<open>>= 100\<close> of \<open>undefined\<close>
  is false, and so is that of \<open>null\<close>.
\<close>

definition hours_ge :: "real option \<Rightarrow> real \<Rightarrow> bool" where
  "hours_ge h bound = (case h of None \<Rightarrow> False | Some x \<Rightarrow> bound \<le> x)"

definition markerColor :: "neighbor \<Rightarrow> string" where
  "markerColor n =
     (if truthy (approvedFlightStipend n) then ''#00ff00''
      else if hours_ge (totalTimeHackatimeHours n) 100 then ''#ffff00''
      else ''red'')"

text \<open>The \<open>baseSize\<close> expression of lines 82 to 86 of \<open>BlinkingDot\<close>.\<close>

definition baseSize :: "string \<Rightarrow> real" where
  "baseSize c = (if c = ''red'' then 0.0075 else if c = ''#ffff00'' then 0.0105 else 0.015)"

section \<open>Render loop driver\<close>

text \<open>
  The callback that \<open>BlinkingDot\<close> registers with \<open>useFrame\<close>, lines 76 to 89. Its
  inputs are the dot's colour, the clock's elapsed time and the scale of the mesh the
  ref points to (\<open>None\<close> while \<open>meshRef.current\<close> is unset); it returns the scale after
  the frame.
\<close>

definition useFrame_callback :: "string \<Rightarrow> real \<Rightarrow> vec3 option \<Rightarrow> vec3 option" where
  "useFrame_callback c t mesh =
     (let scale = \<bar>sin (t * 2)\<bar>
      in case mesh of
           None \<Rightarrow> None
         | Some old \<Rightarrow> Some (scale * baseSize c, scale * baseSize c, scale * baseSize c))"

section \<open>Data join\<close>

text \<open>
  The reducer of lines 115 to 123. The accumulator, an object from codes to arrays, is
  the list of its entries in insertion order, which is the order of \<open>Object.entries\<close>
  for keys that are not canonical array indices. A neighbor whose \<open>airport\<close> is falsy
  (absent, \<open>null\<close> or the empty string) is skipped.
\<close>

type_synonym airport_groups = "(string \<times> neighbor list) list"

definition airportCode :: "neighbor \<Rightarrow> string option" where
  "airportCode n =
     (case airport n of
        None \<Rightarrow> None
      | Some a \<Rightarrow> if a = [] then None else Some (toUpperCase a))"

definition group_reducer :: "airport_groups \<Rightarrow> neighbor \<Rightarrow> airport_groups" where
  "group_reducer groups n =
     (case airportCode n of
        None \<Rightarrow> groups
      | Some code \<Rightarrow>
          let groups1 = (if map_of groups code = None then groups @ [(code, [])] else groups)
          in map (\<lambda>(k, ms). if k = code then (k, ms @ [n]) else (k, ms)) groups1)"

definition airportGroups :: "neighbor list \<Rightarrow> airport_groups" where
  "airportGroups neighbors = foldl group_reducer [] neighbors"

text \<open>
  The lookup of lines 153 to 155: the first entry of the table whose IATA or ICAO code,
  uppercased, is the group's code. An absent code compares unequal.
\<close>

definition airport_matches :: "string \<Rightarrow> airport_record \<Rightarrow> bool" where
  "airport_matches code a =
     (map_option toUpperCase (iata a) = Some code \<or> map_option toUpperCase (icao a) = Some code)"

definition find_airport :: "airport_record list \<Rightarrow> string \<Rightarrow> airport_record option" where
  "find_airport airportsData code = List.find (airport_matches code) airportsData"

text \<open>
  The body of the \<open>map\<close> over the groups, lines 151 to 176: \<open>None\<close> is the \<open>null\<close> of
  line 156, returned when no airport is found or when its \<open>lat\<close> or \<open>lon\<close> is falsy,
  that is absent or the number 0. Past the guard both are numbers, and \<open>Number(...)\<close>
  returns them.
\<close>

definition falsy_number :: "real option \<Rightarrow> bool" where
  "falsy_number v = (case v of None \<Rightarrow> True | Some x \<Rightarrow> x = 0)"

definition make_dot :: "vec3 \<Rightarrow> nat \<Rightarrow> neighbor \<times> nat \<Rightarrow> marker" where
  "make_dot basePosition total_n ni =
     \<lparr> key = slackId (fst ni),
       position = calculateOffsetPosition basePosition (snd ni) total_n,
       interactive = True,
       color = markerColor (fst ni) \<rparr>"

definition renderGroup :: "airport_record list \<Rightarrow> string \<times> neighbor list \<Rightarrow> marker list option" where
  "renderGroup airportsData g =
     (case g of (code, airportNeighbors) \<Rightarrow>
        (case find_airport airportsData code of
           None \<Rightarrow> None
         | Some a \<Rightarrow>
             if falsy_number (lat a) \<or> falsy_number (lon a) then None
             else
               (case (lat a, lon a) of
                  (Some la, Some lo) \<Rightarrow>
                    let basePosition = latLonToVec3_default la lo
                    in Some (map (make_dot basePosition (length airportNeighbors))
                              (zip airportNeighbors [0..<length airportNeighbors]))
                | _ \<Rightarrow> None)))"

text \<open>
  \<open>AirportDots\<close>: the groups are mapped, the result is flattened by one level and the
  \<open>null\<close>s are filtered out.
\<close>

definition flat_filter :: "marker list option list \<Rightarrow> marker list" where
  "flat_filter rs = concat (map (\<lambda>r. case r of None \<Rightarrow> [] | Some ms \<Rightarrow> ms) rs)"

definition AirportDots :: "neighbor list \<Rightarrow> airport_record list \<Rightarrow> marker list" where
  "AirportDots neighbors airportsData =
     flat_filter (map (renderGroup airportsData) (airportGroups neighbors))"

section \<open>The neighbors API handler\<close>

text \<open>
  A record returned by the Airtable query: its id and the ten fields the query selects.
  A field the record lacks is \<open>undefined\<close>; the number field the handler rounds is a
  number or absent.
\<close>

record airtable_record =
  record_id :: string
  f_Pfp_from_slackNeighbor :: jsval
  f_Slack_ID_from_slackNeighbor :: jsval
  f_Full_Name_from_slackNeighbor :: jsval
  f_githubUsername :: jsval
  f_totalTimeCombinedHours :: jsval
  f_totalTimeHackatimeHours :: "real option"
  f_totalTimeStopwatchHours :: jsval
  f_totalCheckedTime :: jsval
  f_Full_Name :: jsval
  f_airport :: jsval

text \<open>The object literal of lines 32 to 44 of the handler.\<close>

definition to_neighbor :: "airtable_record \<Rightarrow> jsobject" where
  "to_neighbor r =
     [(''id'', JStr (record_id r)),
      (''pfp'', js_or (opt_prop (opt_index0 (f_Pfp_from_slackNeighbor r)) ''url'') JNull),
      (''slackId'', js_or (f_Slack_ID_from_slackNeighbor r) JNull),
      (''slackFullName'', js_or (f_Full_Name_from_slackNeighbor r) JNull),
      (''githubUsername'', js_or (f_githubUsername r) JNull),
      (''totalTimeCombinedHours'', js_or (f_totalTimeCombinedHours r) (JNum 0)),
      (''totalTimeHackatimeHours'', JNum (Math_round (or_zero (f_totalTimeHackatimeHours r)))),
      (''totalTimeStopwatchHours'', js_or (f_totalTimeStopwatchHours r) (JNum 0)),
      (''fullName'', js_or (f_Full_Name r) JNull),
      (''totalCheckedTime'', js_or (f_totalCheckedTime r) (JNum 0)),
      (''airport'', f_airport r)]"

text \<open>
  A neighbor as the client receives it: \<open>res.status(200).json({ neighbors })\<close>
  serialises the mapped records, so a record whose \<open>airport\<close> field is \<open>undefined\<close>
  arrives without an \<open>airport\<close> property.
\<close>

definition response_record :: "airtable_record \<Rightarrow> jsobject" where
  "response_record r = json_properties (to_neighbor r)"

text \<open>
  The handler: 405 for a method other than GET; 200 with the serialised records when
  the query returns them; 500 when the query throws, which is \<open>None\<close> here. The body
  is the JSON document that the response carries.
\<close>

datatype response_body = Message string | Neighbors "jsobject list"

definition handler :: "string \<Rightarrow> airtable_record list option \<Rightarrow> nat \<times> response_body" where
  "handler method queried =
     (if method \<noteq> ''GET'' then (405, Message ''Method not allowed'')
      else case queried of
             None \<Rightarrow> (500, Message ''Error fetching neighbors'')
           | Some neighborRecords \<Rightarrow> (200, Neighbors (map response_record neighborRecords)))"

text \<open>
  A response object as the globe page reads it after \<open>res.json()\<close>: each property access
  yields the property's value, \<open>undefined\<close> when the object has none.
\<close>

definition string_or_none :: "jsval \<Rightarrow> string option" where
  "string_or_none v = (case v of JStr s \<Rightarrow> Some s | _ \<Rightarrow> None)"

definition number_or_none :: "jsval \<Rightarrow> real option" where
  "number_or_none v = (case v of JNum x \<Rightarrow> Some x | _ \<Rightarrow> None)"

definition neighbor_of_object :: "jsobject \<Rightarrow> neighbor" where
  "neighbor_of_object obj =
     \<lparr> slackId = get_prop obj ''slackId'',
       airport = string_or_none (get_prop obj ''airport''),
       approvedFlightStipend = get_prop obj ''approvedFlightStipend'',
       totalTimeHackatimeHours = number_or_none (get_prop obj ''totalTimeHackatimeHours'') \<rparr>"

section \<open>Example inputs\<close>

text \<open>
  The inputs of the grouping scenario: four persons that carry only an \<open>airport\<close>
  property (\<open>"sfo"\<close>, \<open>"SFO"\<close>, \<open>null\<close>, \<open>"xyz"\<close>) and an airport table whose only
  entry is San Francisco.
\<close>

definition person_with_airport :: "string option \<Rightarrow> neighbor" where
  "person_with_airport a =
     \<lparr> slackId = JUndefined, airport = a, approvedFlightStipend = JUndefined,
       totalTimeHackatimeHours = None \<rparr>"

definition example_persons :: "neighbor list" where
  "example_persons =
     [person_with_airport (Some ''sfo''), person_with_airport (Some ''SFO''),
      person_with_airport None, person_with_airport (Some ''xyz'')]"

definition sfo_record :: airport_record where
  "sfo_record = \<lparr> iata = Some ''SFO'', icao = Some ''KSFO'', lat = Some 37.62, lon = Some (- 122.38) \<rparr>"

text \<open>An airport on the equator, and a record as the Airtable query returns it.\<close>

definition equator_record :: airport_record where
  "equator_record = \<lparr> iata = Some ''UIO'', icao = Some ''SEQM'', lat = Some 0, lon = Some (- 78.36) \<rparr>"

definition example_airtable_record :: airtable_record where
  "example_airtable_record =
     \<lparr> record_id = ''rec1'',
       f_Pfp_from_slackNeighbor = JArr [JObj [(''url'', JStr ''https://example.org/p.png'')]],
       f_Slack_ID_from_slackNeighbor = JArr [JStr ''U1''],
       f_Full_Name_from_slackNeighbor = JUndefined,
       f_githubUsername = JStr ''ada'',
       f_totalTimeCombinedHours = JNum 150,
       f_totalTimeHackatimeHours = Some 149.5,
       f_totalTimeStopwatchHours = JUndefined,
       f_totalCheckedTime = JNum 3,
       f_Full_Name = JStr ''Ada'',
       f_airport = JStr ''sfo'' \<rparr>"

text \<open>The same record without an airport: Airtable leaves an empty field out.\<close>

definition airportless_airtable_record :: airtable_record where
  "airportless_airtable_record = example_airtable_record \<lparr> f_airport := JUndefined \<rparr>"

section \<open>Lengths and dot products\<close>

lemma sq_alg: "(- r * a * c) * (- r * a * c) + (r * b) * (r * b) + (r * a * d) * (r * a * d)
    = r * r * ((a\<^sup>2) * (d\<^sup>2 + c\<^sup>2) + b\<^sup>2)" for r a b c d :: real
  by (simp add: power2_eq_square algebra_simps)

lemma sq_sph: "(- r * sin p * cos t) * (- r * sin p * cos t) + (r * cos p) * (r * cos p)
   + (r * sin p * sin t) * (r * sin p * sin t) = r * r" for r p t :: real
  unfolding sq_alg by simp

lemma latLonToVec3_length: "0 \<le> r \<Longrightarrow> v3_length (latLonToVec3 la lo r) = r"
  by (simp add: latLonToVec3_def Let_def sq_sph del: minus_mult_minus mult_minus_left mult_minus_right)

lemma len_sq: "(v3_length v)\<^sup>2 = v3_dot v v"
  by (cases v) (simp add: add_nonneg_nonneg)

lemma len_mult: "v3_length (v3_multiplyScalar v s) = \<bar>s\<bar> * v3_length v"
proof (cases v)
  case (fields x y z)
  have "x * s * (x * s) + y * s * (y * s) + z * s * (z * s) = s\<^sup>2 * (x * x + y * y + z * z)"
    by (simp add: power2_eq_square algebra_simps)
  then show ?thesis using fields by (simp add: real_sqrt_mult)
qed

lemma len_nonneg: "0 \<le> v3_length v" by (cases v) simp

lemma normalize_len: "v3_length v \<noteq> 0 \<Longrightarrow> v3_length (v3_normalize v) = 1"
  using len_nonneg[of v] by (simp add: v3_normalize_def v3_divideScalar_def len_mult)

lemma normalize_zero: "v3_length v = 0 \<Longrightarrow> v3_normalize v = v"
  by (cases v) (simp add: v3_normalize_def v3_divideScalar_def)

lemma len_zero_iff: "v3_length v = 0 \<longleftrightarrow> v = (0, 0, 0)"
proof (cases v)
  case (fields x y z)
  have "x * x + y * y + z * z = 0 \<longleftrightarrow> x = 0 \<and> y = 0 \<and> z = 0"
    using sum_power2_eq_zero_iff[of "x" "y"] sum_power2_eq_zero_iff[of "sqrt (x\<^sup>2 + y\<^sup>2)" "z"]
    by (auto simp: power2_eq_square add_nonneg_eq_0_iff)
  then show ?thesis using fields by simp
qed

lemma dot_add_left: "v3_dot (v3_add a b) c = v3_dot a c + v3_dot b c"
  by (cases a, cases b, cases c) (simp add: algebra_simps)

lemma dot_sub_left: "v3_dot (v3_sub a b) c = v3_dot a c - v3_dot b c"
  by (cases a, cases b, cases c) (simp add: algebra_simps)

lemma dot_mult_left: "v3_dot (v3_multiplyScalar a s) c = s * v3_dot a c"
  by (cases a, cases c) (simp add: algebra_simps)

lemma dot_zero_left: "v3_dot (0, 0, 0) c = 0"
  by (cases c) simp

lemma normalize_dot_self:
  assumes "v3_length b \<noteq> 0"
  shows "v3_dot (v3_normalize b) (v3_normalize b) = 1"
  using normalize_len[OF assms] len_sq[of "v3_normalize b"] by simp

lemma dot_mult_right: "v3_dot c (v3_multiplyScalar a s) = s * v3_dot c a"
  by (cases a, cases c) (simp add: algebra_simps)

lemma dot_normalize:
  assumes "v3_length b \<noteq> 0"
  shows "v3_dot b (v3_normalize b) = v3_length b"
proof -
  have "v3_dot b (v3_normalize b) = (1 / v3_length b) * v3_dot b b"
    using assms by (simp add: v3_normalize_def v3_divideScalar_def dot_mult_right)
  also have "\<dots> = (1 / v3_length b) * (v3_length b)\<^sup>2" by (simp add: len_sq)
  also have "\<dots> = v3_length b" using assms by (simp add: power2_eq_square)
  finally show ?thesis .
qed

lemma final_dot_normal:
  assumes "v3_length b \<noteq> 0"
  shows "v3_dot (v3_add b (v3_sub off (v3_multiplyScalar (v3_normalize b)
            (v3_dot off (v3_normalize b))))) (v3_normalize b) = v3_length b"
  by (simp add: dot_add_left dot_sub_left dot_mult_left dot_normalize[OF assms]
      normalize_dot_self[OF assms])

lemma final_nonzero:
  assumes "v3_length off \<noteq> 0"
  shows "v3_length (v3_add b (v3_sub off (v3_multiplyScalar (v3_normalize b)
            (v3_dot off (v3_normalize b))))) \<noteq> 0"
proof (cases "v3_length b = 0")
  case True
  then have b: "b = (0, 0, 0)" by (simp add: len_zero_iff)
  have "v3_normalize b = (0, 0, 0)" using True b by (simp add: normalize_zero)
  then have "v3_add b (v3_sub off (v3_multiplyScalar (v3_normalize b)
            (v3_dot off (v3_normalize b)))) = off"
    using b by (cases off) simp
  then show ?thesis using assms by simp
next
  case False
  show ?thesis
  proof
    assume "v3_length (v3_add b (v3_sub off (v3_multiplyScalar (v3_normalize b)
            (v3_dot off (v3_normalize b))))) = 0"
    then have "v3_add b (v3_sub off (v3_multiplyScalar (v3_normalize b)
            (v3_dot off (v3_normalize b)))) = (0, 0, 0)" by (simp add: len_zero_iff)
    then have "v3_dot (v3_add b (v3_sub off (v3_multiplyScalar (v3_normalize b)
            (v3_dot off (v3_normalize b))))) (v3_normalize b) = 0"
      by (simp add: dot_zero_left)
    then show False using final_dot_normal[OF False, of off] False by simp
  qed
qed

lemma circle_length: "v3_length (cos a, 0, sin a) = 1"
proof -
  have "cos a * cos a + 0 * 0 + sin a * sin a = 1"
    using sin_cos_squared_add[of a] by (simp add: power2_eq_square)
  then show ?thesis by (simp del: mult_zero_left mult_zero_right)
qed

lemma offset_length: "v3_length (cos a * r, 0, sin a * r) = \<bar>r\<bar>"
  using len_mult[of "(cos a, 0, sin a)" r] by (simp add: circle_length del: v3_length.simps)

lemma calculateOffsetPosition_unit:
  assumes "2 \<le> n"
  shows "v3_length (calculateOffsetPosition b i n) = 1"
proof -
  let ?off = "(cos (real i / real n * pi * 2) * 0.01, 0::real, sin (real i / real n * pi * 2) * 0.01)"
  have "v3_length ?off \<noteq> 0" by (simp only: offset_length) simp
  from final_nonzero[OF this, of b] show ?thesis
    using assms by (simp add: calculateOffsetPosition_def Let_def normalize_len)
qed

section \<open>Geo projection: the point lies on the sphere of the given radius\<close>

text \<open>
  Claim C3. For every latitude in [-90, 90], longitude in [-180, 180] and radius
  \<open>r > 0\<close>, the point that \<open>latLonToVec3(lat, lon, r)\<close> returns has Euclidean norm \<open>r\<close>.
  Numbers are reals here, so the norm is exactly \<open>r\<close>; the ranges of the angles are
  not needed by the proof.
\<close>

theorem latLonToVec3_norm:
  fixes lat lon r :: real
  assumes "- 90 \<le> lat" and "lat \<le> 90" and "- 180 \<le> lon" and "lon \<le> 180" and "0 < r"
  shows "v3_length (latLonToVec3 lat lon r) = r"
  using assms(5) by (simp add: latLonToVec3_length)

theorem latLonToVec3_norm_witness:
  "(- 90 :: real) \<le> 37 \<and> (37 :: real) \<le> 90 \<and> (- 180 :: real) \<le> - 122 \<and> (- 122 :: real) \<le> 180
   \<and> (0 :: real) < 1.001 \<and> v3_length (latLonToVec3 37 (- 122) 1.001) = 1.001"
  using latLonToVec3_norm [of 37 "- 122" "1.001"] by simp

section \<open>Cluster layout: the sphere of the outputs\<close>

lemma v3_length_y_axis: "0 \<le> r \<Longrightarrow> v3_length (0, r, 0) = r"
  by simp

lemma calculateOffsetPosition_single:
  "total_n \<le> 1 \<Longrightarrow> calculateOffsetPosition b i total_n = b"
  by (simp add: calculateOffsetPosition_def)

lemma offsetPositions_length: "length (offsetPositions b total_n) = total_n"
  by (simp add: offsetPositions_def)

lemma offsetPositions_one: "offsetPositions b 1 = [b]"
  by (simp add: offsetPositions_def calculateOffsetPosition_def)

lemma offsetPositions_unit:
  assumes "2 \<le> total_n" and "p \<in> set (offsetPositions b total_n)"
  shows "v3_length p = 1"
  using assms by (auto simp: offsetPositions_def calculateOffsetPosition_unit)

lemma offsetPositions_on_unit_sphere:
  assumes "v3_length b = 1" and "p \<in> set (offsetPositions b total_n)"
  shows "v3_length p = 1"
proof (cases "2 \<le> total_n")
  case True
  then show ?thesis using assms(2) by (rule offsetPositions_unit)
next
  case False
  then have "total_n \<le> 1" by simp
  then show ?thesis
    using assms by (auto simp: offsetPositions_def calculateOffsetPosition_single)
qed

text \<open>
  Claim C2, as stated: every output of the layout lies on the sphere of its base
  position, also for a base that \<open>latLonToVec3\<close> returns with its default radius 1.001.
  It fails: the north pole at radius 1.001, in a group of two, is moved to a point of
  norm 1.
\<close>

theorem offset_radius_not_preserved:
  "\<not> (v3_length (calculateOffsetPosition (latLonToVec3_default 90 0) 0 2)
        = v3_length (latLonToVec3_default 90 0))"
  by (simp add: calculateOffsetPosition_unit latLonToVec3_default_def latLonToVec3_length)

text \<open>
  Claim C2, amended. For a total of at most 1 the base position is returned unchanged
  (one position, the base, for a group of one). For a total of 2 or more every output
  has norm exactly 1, whatever the radius of the base: the result is normalised to unit
  length. So the outputs lie on the sphere of the base exactly when the base has
  norm 1; for a base of radius 1.001 they lie on the unit sphere.
\<close>

theorem calculateOffsetPosition_unit_sphere:
  "(total_n \<le> 1 \<longrightarrow> calculateOffsetPosition b i total_n = b)
   \<and> offsetPositions b 1 = [b]
   \<and> length (offsetPositions b total_n) = total_n
   \<and> (2 \<le> total_n \<longrightarrow>
        v3_length (calculateOffsetPosition b i total_n) = 1
        \<and> (\<forall>p \<in> set (offsetPositions b total_n). v3_length p = 1)
        \<and> (v3_length (calculateOffsetPosition b i total_n) = v3_length b
               \<longleftrightarrow> v3_length b = 1))"
proof (intro conjI impI)
  show "offsetPositions b 1 = [b]" by (rule offsetPositions_one)
  show "length (offsetPositions b total_n) = total_n" by (rule offsetPositions_length)
next
  assume "total_n \<le> 1"
  then show "calculateOffsetPosition b i total_n = b" by (rule calculateOffsetPosition_single)
next
  assume "2 \<le> total_n"
  then show "v3_length (calculateOffsetPosition b i total_n) = 1"
    by (rule calculateOffsetPosition_unit)
next
  assume "2 \<le> total_n"
  then show "\<forall>p \<in> set (offsetPositions b total_n). v3_length p = 1"
    using offsetPositions_unit by blast
next
  assume "2 \<le> total_n"
  then show "v3_length (calculateOffsetPosition b i total_n) = v3_length b
               \<longleftrightarrow> v3_length b = 1"
    by (auto simp: calculateOffsetPosition_unit)
qed

theorem calculateOffsetPosition_unit_sphere_witness:
  "(1 :: nat) \<le> 1 \<and> calculateOffsetPosition (0, 1.001, 0) 0 1 = (0, 1.001, 0)
   \<and> (2 :: nat) \<le> 3 \<and> v3_length (calculateOffsetPosition (0, 1.001, 0) 1 3) = 1
   \<and> v3_length (calculateOffsetPosition (0, 1.001, 0) 1 3) \<noteq> v3_length (0, 1.001, 0)"
proof -
  let ?b = "(0, 1.001, 0) :: vec3"
  have len: "v3_length ?b = 1.001" by (rule v3_length_y_axis) simp
  note t1 = calculateOffsetPosition_unit_sphere [of 1 ?b 0]
  note t3 = calculateOffsetPosition_unit_sphere [of 3 ?b 1]
  have a: "calculateOffsetPosition ?b 0 1 = ?b" using t1 by blast
  have b: "v3_length (calculateOffsetPosition ?b 1 3) = 1" using t3 by simp
  have d: "v3_length (calculateOffsetPosition ?b 1 3) \<noteq> v3_length ?b"
    unfolding b len by simp
  have e: "(1 :: nat) \<le> 1" and f: "(2 :: nat) \<le> 3" by simp_all
  show ?thesis by (intro conjI) (rule e a f b d)+
qed

section \<open>Cluster layout: positions that coincide, and when they are distinct\<close>

lemma normalize_x_axis: "v3_normalize (1, 0, 0) = (1, 0, 0)"
  by (simp add: v3_normalize_def v3_divideScalar_def)

lemma calculateOffsetPosition_x_axis:
  "2 \<le> n \<Longrightarrow> calculateOffsetPosition (1, 0, 0) i n
     = v3_normalize (1, 0, sin (real i / real n * pi * 2) * 0.01)"
  by (simp add: calculateOffsetPosition_def Let_def normalize_x_axis)

lemma sin_108_72: "sin (real 3 / real 10 * pi * 2) = sin (real 2 / real 10 * pi * 2)"
proof -
  have "real 3 / real 10 * pi * 2 = pi - real 2 / real 10 * pi * 2" by simp
  then show ?thesis by (simp only: sin_pi_minus)
qed

text \<open>
  Claim C1, as stated: for every base position on the unit sphere and every count among
  1, 2, 3 and 10, the positions of the indices below the count have norm 1 and, for a
  count of 2 or more, are pairwise distinct. The second half fails. The offsets lie on
  a circle in the plane \<open>y = 0\<close> and lose their component along the normal; for a base
  in that plane the circle collapses to a segment. At the base \<open>(1, 0, 0)\<close>, which has
  norm 1, the indices 2 and 3 of 10 get the same position, and the indices 0 and 1 of 2
  both get the base itself.
\<close>

theorem calculateOffsetPosition_overlap:
  "v3_length (1, 0, 0) = 1
   \<and> calculateOffsetPosition (1, 0, 0) 2 10 = calculateOffsetPosition (1, 0, 0) 3 10
   \<and> calculateOffsetPosition (1, 0, 0) 0 2 = (1, 0, 0)
   \<and> calculateOffsetPosition (1, 0, 0) 1 2 = (1, 0, 0)"
proof -
  have a: "calculateOffsetPosition (1, 0, 0) 2 10 = calculateOffsetPosition (1, 0, 0) 3 10"
    using sin_108_72
    by (simp only: calculateOffsetPosition_x_axis [of 10 2] calculateOffsetPosition_x_axis [of 10 3])
  have b: "calculateOffsetPosition (1, 0, 0) 0 2 = (1, 0, 0)"
    by (simp add: calculateOffsetPosition_x_axis normalize_x_axis)
  have c: "calculateOffsetPosition (1, 0, 0) 1 2 = (1, 0, 0)"
    by (simp add: calculateOffsetPosition_x_axis normalize_x_axis)
  show ?thesis using a b c by simp
qed

lemma normalize_scale:
  assumes "v3_length v \<noteq> 0"
  shows "v3_multiplyScalar (v3_normalize v) (v3_length v) = v"
proof (cases v)
  case (fields x y z)
  have "v3_multiplyScalar (v3_multiplyScalar v (1 / v3_length v)) (v3_length v) = v"
    using assms unfolding fields by (simp del: v3_length.simps)
  then show ?thesis using assms by (simp add: v3_normalize_def v3_divideScalar_def)
qed

lemma dot_normalize_left:
  "v3_length w \<noteq> 0 \<Longrightarrow> v3_dot (v3_normalize w) c = v3_dot w c / v3_length w"
  by (simp add: v3_normalize_def v3_divideScalar_def dot_mult_left)

lemma normalize_eq_imp_eq:
  assumes n: "v3_normalize w1 = v3_normalize w2"
    and d1: "v3_dot w1 N = L" and d2: "v3_dot w2 N = L" and L: "L \<noteq> 0"
    and l1: "v3_length w1 \<noteq> 0" and l2: "v3_length w2 \<noteq> 0"
  shows "w1 = w2"
proof -
  have "L / v3_length w1 = v3_dot (v3_normalize w1) N"
    using l1 d1 by (simp add: dot_normalize_left)
  also have "\<dots> = v3_dot (v3_normalize w2) N" by (simp only: n)
  also have "\<dots> = L / v3_length w2"
    using l2 d2 by (simp add: dot_normalize_left)
  finally have "L / v3_length w1 = L / v3_length w2" .
  then have len: "v3_length w1 = v3_length w2" using L by auto
  have "w1 = v3_multiplyScalar (v3_normalize w1) (v3_length w1)"
    using l1 by (simp add: normalize_scale)
  also have "\<dots> = v3_multiplyScalar (v3_normalize w2) (v3_length w2)" using n len by simp
  also have "\<dots> = w2" using l2 by (simp add: normalize_scale)
  finally show ?thesis .
qed

lemma v3_add_left_cancel: "v3_add b t1 = v3_add b t2 \<Longrightarrow> t1 = t2"
  by (cases b, cases t1, cases t2) simp

lemma tangent_inj:
  assumes "fst (snd N) \<noteq> 0"
    and "v3_sub (ox1, 0, oz1) (v3_multiplyScalar N d1) = v3_sub (ox2, 0, oz2) (v3_multiplyScalar N d2)"
  shows "ox1 = ox2 \<and> oz1 = oz2"
proof (cases N)
  case (fields nx ny nz)
  from assms fields have ny: "ny \<noteq> 0" by simp
  from assms(2) fields have x: "ox1 - nx * d1 = ox2 - nx * d2"
    and y: "0 - ny * d1 = 0 - ny * d2" and z: "oz1 - nz * d1 = oz2 - nz * d2" by simp_all
  from y ny have "d1 = d2" by simp
  with x z show ?thesis by simp
qed

lemma angle_inj:
  assumes "i < n" and "j < n"
    and c: "cos (real i / real n * pi * 2) = cos (real j / real n * pi * 2)"
    and s: "sin (real i / real n * pi * 2) = sin (real j / real n * pi * 2)"
  shows "i = j"
proof -
  let ?a = "real i / real n * pi * 2" and ?b = "real j / real n * pi * 2"
  have "cos (?a - ?b) = cos ?b * cos ?b + sin ?b * sin ?b"
    by (simp only: cos_diff c s)
  also have "\<dots> = 1" using sin_cos_squared_add[of ?b] by (simp add: power2_eq_square)
  finally obtain k :: int where k: "?a - ?b = of_int k * 2 * pi"
    using cos_one_2pi_int by blast
  have n0: "0 < real n" using assms(1) by simp
  have "(real i - real j) / real n * (2 * pi) = of_int k * (2 * pi)"
    using k by (simp add: algebra_simps diff_divide_distrib)
  moreover have "2 * pi \<noteq> (0 :: real)" by simp
  ultimately have "(real i - real j) / real n = of_int k"
    using mult_right_cancel [of "2 * pi" "(real i - real j) / real n" "of_int k"] by blast
  then have "real i - real j = of_int k * real n" using n0 by (simp add: field_simps)
  then have "real_of_int (int i - int j) = real_of_int (k * int n)" by simp
  then have e: "int i - int j = k * int n" by (simp only: of_int_eq_iff)
  have "\<bar>int i - int j\<bar> < int n" using assms(1,2) by simp
  then have "\<bar>k\<bar> * int n < 1 * int n" using e by (simp add: abs_mult)
  then have "\<bar>k\<bar> < 1" using mult_right_less_imp_less [of "\<bar>k\<bar>" "int n" 1] by simp
  then have "k = 0" by simp
  then show ?thesis using e by simp
qed

lemma normalize_y:
  assumes "fst (snd b) \<noteq> 0"
  shows "v3_length b \<noteq> 0" and "fst (snd (v3_normalize b)) \<noteq> 0"
proof -
  show l: "v3_length b \<noteq> 0" using assms by (auto simp: len_zero_iff)
  obtain x y z where b: "b = (x, y, z)" by (cases b)
  have "fst (snd (v3_normalize b)) = y * (1 / v3_length b)"
    using l unfolding b by (simp add: v3_normalize_def v3_divideScalar_def del: v3_length.simps)
  then show "fst (snd (v3_normalize b)) \<noteq> 0" using l assms b by simp
qed

lemma calculateOffsetPosition_distinct:
  assumes y: "fst (snd b) \<noteq> 0" and i: "i < n" and j: "j < n" and ne: "i \<noteq> j"
  shows "calculateOffsetPosition b i n \<noteq> calculateOffsetPosition b j n"
proof
  assume eq: "calculateOffsetPosition b i n = calculateOffsetPosition b j n"
  have n2: "2 \<le> n" using i j ne by simp
  let ?N = "v3_normalize b"
  let ?ci = "cos (real i / real n * pi * 2) * 0.01" and ?si = "sin (real i / real n * pi * 2) * 0.01"
  let ?cj = "cos (real j / real n * pi * 2) * 0.01" and ?sj = "sin (real j / real n * pi * 2) * 0.01"
  let ?ti = "v3_sub (?ci, 0, ?si) (v3_multiplyScalar ?N (v3_dot (?ci, 0, ?si) ?N))"
  let ?tj = "v3_sub (?cj, 0, ?sj) (v3_multiplyScalar ?N (v3_dot (?cj, 0, ?sj) ?N))"
  have L: "v3_length b \<noteq> 0" and Ny: "fst (snd ?N) \<noteq> 0" using normalize_y [OF y] by simp_all
  have oi: "v3_length (?ci, 0, ?si) \<noteq> 0" and oj: "v3_length (?cj, 0, ?sj) \<noteq> 0"
    by (simp_all only: offset_length) simp_all
  have li: "v3_length (v3_add b ?ti) \<noteq> 0" by (rule final_nonzero [OF oi])
  have lj: "v3_length (v3_add b ?tj) \<noteq> 0" by (rule final_nonzero [OF oj])
  have di: "v3_dot (v3_add b ?ti) ?N = v3_length b" by (rule final_dot_normal [OF L])
  have dj: "v3_dot (v3_add b ?tj) ?N = v3_length b" by (rule final_dot_normal [OF L])
  have "v3_normalize (v3_add b ?ti) = v3_normalize (v3_add b ?tj)"
    using eq n2 by (simp add: calculateOffsetPosition_def Let_def)
  then have "v3_add b ?ti = v3_add b ?tj"
    by (rule normalize_eq_imp_eq [OF _ di dj L li lj])
  then have "?ti = ?tj" by (rule v3_add_left_cancel)
  then have "?ci = ?cj \<and> ?si = ?sj" by (rule tangent_inj [OF Ny])
  then have "cos (real i / real n * pi * 2) = cos (real j / real n * pi * 2)"
    and "sin (real i / real n * pi * 2) = sin (real j / real n * pi * 2)" by simp_all
  then have "i = j" by (rule angle_inj [OF i j])
  then show False using ne by simp
qed

lemma distance_pos: "p \<noteq> q \<Longrightarrow> 0 < v3_length (v3_sub p q)"
proof -
  assume "p \<noteq> q"
  then have "v3_sub p q \<noteq> (0, 0, 0)" by (cases p, cases q) auto
  then have "v3_length (v3_sub p q) \<noteq> 0" by (simp only: len_zero_iff) simp
  then show ?thesis using len_nonneg [of "v3_sub p q"] by simp
qed

lemma offsetPositions_distinct:
  assumes "fst (snd b) \<noteq> 0"
  shows "distinct (offsetPositions b n)"
proof -
  have "inj_on (\<lambda>index. calculateOffsetPosition b index n) {0..<n}"
    using calculateOffsetPosition_distinct [OF assms, of _ n] by (fastforce simp: inj_on_def)
  then show ?thesis by (simp add: offsetPositions_def distinct_map)
qed

text \<open>
  Claim C1, amended. For every base position on the unit sphere and every count (1, 2,
  3 and 10 among them), the positions of the indices below the count are as many as the
  count and each has norm 1; they are pairwise distinct, every pairwise distance being
  positive, provided the base position does not lie in the plane \<open>y = 0\<close>, that is its
  second coordinate is not 0.
\<close>

theorem offsetPositions_unit_distinct:
  assumes "v3_length b = 1"
  shows "length (offsetPositions b n) = n
     \<and> (\<forall>p \<in> set (offsetPositions b n). v3_length p = 1)
     \<and> (fst (snd b) \<noteq> 0 \<longrightarrow>
           distinct (offsetPositions b n)
           \<and> (\<forall>i < n. \<forall>j < n. i \<noteq> j \<longrightarrow>
                 0 < v3_length (v3_sub (calculateOffsetPosition b i n)
                                       (calculateOffsetPosition b j n))))"
proof (intro conjI impI allI ballI)
  show "length (offsetPositions b n) = n" by (rule offsetPositions_length)
next
  fix p assume "p \<in> set (offsetPositions b n)"
  with assms show "v3_length p = 1" by (rule offsetPositions_on_unit_sphere)
next
  assume "fst (snd b) \<noteq> 0"
  then show "distinct (offsetPositions b n)" by (rule offsetPositions_distinct)
next
  fix i j assume "fst (snd b) \<noteq> 0" and "i < n" and "j < n" and "i \<noteq> j"
  then have "calculateOffsetPosition b i n \<noteq> calculateOffsetPosition b j n"
    by (rule calculateOffsetPosition_distinct)
  then show "0 < v3_length (v3_sub (calculateOffsetPosition b i n)
                                   (calculateOffsetPosition b j n))"
    by (rule distance_pos)
qed

theorem offsetPositions_unit_distinct_witness:
  "v3_length (0, 1, 0) = 1 \<and> fst (snd (0 :: real, 1 :: real, 0 :: real)) \<noteq> 0
   \<and> (0 :: nat) < 3 \<and> (1 :: nat) < 3 \<and> (0 :: nat) \<noteq> 1
   \<and> length (offsetPositions (0, 1, 0) 3) = 3
   \<and> distinct (offsetPositions (0, 1, 0) 3)
   \<and> 0 < v3_length (v3_sub (calculateOffsetPosition (0, 1, 0) 0 3)
                             (calculateOffsetPosition (0, 1, 0) 1 3))"
proof -
  have l: "v3_length (0, 1, 0) = 1" by simp
  have y: "fst (snd (0 :: real, 1 :: real, 0 :: real)) \<noteq> 0" by simp
  note t = offsetPositions_unit_distinct [OF l, of 3]
  have a: "length (offsetPositions (0, 1, 0) 3) = 3" using t by blast
  have b: "distinct (offsetPositions (0, 1, 0) 3)" using t y by blast
  have c: "0 < v3_length (v3_sub (calculateOffsetPosition (0, 1, 0) 0 3)
                             (calculateOffsetPosition (0, 1, 0) 1 3))"
    using t y by simp
  have d: "(0 :: nat) < 3" "(1 :: nat) < 3" "(0 :: nat) \<noteq> 1" by simp_all
  show ?thesis by (intro conjI) (rule l y d a b c)+
qed

section \<open>Cluster layout: what a call depends on\<close>

lemma calculateOffsetPosition_exec_value:
  "fst (calculateOffsetPosition_exec basePosition index total_n s)
     = calculateOffsetPosition basePosition index total_n"
  by (simp add: calculateOffsetPosition_exec_def calculateOffsetPosition_def Let_def
      new_Vector3_def ref_clone_def ref_normalize_def ref_multiplyScalar_def ref_sub_def
      ref_add_def ref_dot_def nth_append)

lemma calculateOffsetPosition_exec_state:
  "random_state (snd (calculateOffsetPosition_exec basePosition index total_n s)) = random_state s
   \<and> clock (snd (calculateOffsetPosition_exec basePosition index total_n s)) = clock s
   \<and> take (length (heap s)) (heap (snd (calculateOffsetPosition_exec basePosition index total_n s)))
       = heap s"
  by (simp add: calculateOffsetPosition_exec_def Let_def
      new_Vector3_def ref_clone_def ref_normalize_def ref_multiplyScalar_def ref_sub_def
      ref_add_def ref_dot_def)

text \<open>
  Claim C8. The layout is deterministic. Run from any two machine states, whatever
  their heaps, random generators and clocks, two calls with the same base position,
  index and total return the same position; so does a second call made in the state
  the first one leaves. A call draws no random number, does not touch the clock and
  overwrites no object that existed before it, and what it returns is the value of the
  layout function of its three arguments.
\<close>

theorem calculateOffsetPosition_exec_deterministic:
  "fst (calculateOffsetPosition_exec basePosition index total_n s1)
     = fst (calculateOffsetPosition_exec basePosition index total_n s2)
   \<and> fst (calculateOffsetPosition_exec basePosition index total_n
            (snd (calculateOffsetPosition_exec basePosition index total_n s1)))
     = fst (calculateOffsetPosition_exec basePosition index total_n s1)
   \<and> fst (calculateOffsetPosition_exec basePosition index total_n s1)
     = calculateOffsetPosition basePosition index total_n
   \<and> random_state (snd (calculateOffsetPosition_exec basePosition index total_n s1))
     = random_state s1
   \<and> clock (snd (calculateOffsetPosition_exec basePosition index total_n s1)) = clock s1
   \<and> take (length (heap s1))
        (heap (snd (calculateOffsetPosition_exec basePosition index total_n s1))) = heap s1"
  using calculateOffsetPosition_exec_state [of basePosition index total_n s1]
  by (simp add: calculateOffsetPosition_exec_value)

section \<open>Marker classification\<close>

text \<open>
  Claim C4. The classification is total and goes by priority, the first match winning:
  a person whose approved flag is truthy (the value \<open>true\<close> in particular) is green with
  base size 0.015; otherwise one with at least 100 logged hours is yellow with base
  size 0.0105, which is 0.7 times 0.015; otherwise the person is red with base size
  0.0075, which is 0.5 times 0.015. An approved flag that is \<open>undefined\<close> (or \<open>false\<close>)
  is not truthy, and absent hours do not reach the threshold.
\<close>

theorem markerColor_priority:
  fixes n :: neighbor
  shows "(truthy (approvedFlightStipend n) \<longrightarrow>
            markerColor n = ''#00ff00'' \<and> baseSize (markerColor n) = 0.015)
   \<and> (\<not> truthy (approvedFlightStipend n)
        \<and> (\<exists>h. totalTimeHackatimeHours n = Some h \<and> 100 \<le> h) \<longrightarrow>
            markerColor n = ''#ffff00'' \<and> baseSize (markerColor n) = 0.0105
            \<and> baseSize (markerColor n) = 0.7 * 0.015)
   \<and> (\<not> truthy (approvedFlightStipend n)
        \<and> (totalTimeHackatimeHours n = None
             \<or> (\<exists>h. totalTimeHackatimeHours n = Some h \<and> h < 100)) \<longrightarrow>
            markerColor n = ''red'' \<and> baseSize (markerColor n) = 0.0075
            \<and> baseSize (markerColor n) = 0.5 * 0.015)
   \<and> (approvedFlightStipend n = JBool True \<longrightarrow> truthy (approvedFlightStipend n))
   \<and> (approvedFlightStipend n = JUndefined \<or> approvedFlightStipend n = JBool False \<longrightarrow>
            \<not> truthy (approvedFlightStipend n))
   \<and> markerColor n \<in> {''#00ff00'', ''#ffff00'', ''red''}"
  by (auto simp: markerColor_def baseSize_def hours_ge_def)

theorem markerColor_priority_witness:
  "markerColor \<lparr> slackId = JStr ''U1'', airport = Some ''SFO'',
       approvedFlightStipend = JBool True, totalTimeHackatimeHours = Some 5 \<rparr> = ''#00ff00''
   \<and> baseSize ''#00ff00'' = 0.015
   \<and> markerColor \<lparr> slackId = JStr ''U2'', airport = Some ''SFO'',
       approvedFlightStipend = JBool False, totalTimeHackatimeHours = Some 150 \<rparr> = ''#ffff00''
   \<and> baseSize ''#ffff00'' = 0.0105
   \<and> markerColor \<lparr> slackId = JStr ''U3'', airport = Some ''SFO'',
       approvedFlightStipend = JUndefined, totalTimeHackatimeHours = None \<rparr> = ''red''
   \<and> baseSize ''red'' = 0.0075"
proof -
  let ?g = "\<lparr> slackId = JStr ''U1'', airport = Some ''SFO'',
       approvedFlightStipend = JBool True, totalTimeHackatimeHours = Some 5 \<rparr>"
  let ?y = "\<lparr> slackId = JStr ''U2'', airport = Some ''SFO'',
       approvedFlightStipend = JBool False, totalTimeHackatimeHours = Some 150 \<rparr>"
  let ?r = "\<lparr> slackId = JStr ''U3'', airport = Some ''SFO'',
       approvedFlightStipend = JUndefined, totalTimeHackatimeHours = None \<rparr>"
  have g: "markerColor ?g = ''#00ff00'' \<and> baseSize ''#00ff00'' = 0.015"
    using markerColor_priority [of ?g] by auto
  have y: "markerColor ?y = ''#ffff00'' \<and> baseSize ''#ffff00'' = 0.0105"
    using markerColor_priority [of ?y] by auto
  have r: "markerColor ?r = ''red'' \<and> baseSize ''red'' = 0.0075"
    using markerColor_priority [of ?r] by auto
  show ?thesis using g y r by blast
qed

section \<open>Render loop driver\<close>

text \<open>
  Claim C6. At elapsed time \<open>t\<close> the scale multiplier of every marker is
  \<open>|sin(2 t)|\<close>; it lies in [0, 1]; the frame callback sets the three axes of a mounted
  mesh to the multiplier times the marker's base size; and the multiplier is the same
  for every marker at the same \<open>t\<close>, whatever its colour and its previous scale. The
  elapsed time is an input of the callback.
\<close>

theorem blink_scale_lockstep:
  "0 \<le> \<bar>sin (2 * t)\<bar> \<and> \<bar>sin (2 * t)\<bar> \<le> 1
   \<and> (\<forall>c old. useFrame_callback c t (Some old) =
         Some (\<bar>sin (2 * t)\<bar> * baseSize c, \<bar>sin (2 * t)\<bar> * baseSize c,
               \<bar>sin (2 * t)\<bar> * baseSize c))
   \<and> (\<forall>c. useFrame_callback c t None = None)"
  by (simp add: useFrame_callback_def Let_def mult.commute abs_le_iff)

section \<open>Data join: grouping\<close>

lemma map_of_push:
  "map_of (map (\<lambda>(k, ms). if k = code then (k, ms @ [n]) else (k, ms)) xs) c
     = (if c = code then map_option (\<lambda>ms. ms @ [n]) (map_of xs c) else map_of xs c)"
  by (induction xs) auto

lemma fst_push:
  "fst \<circ> (\<lambda>(k, ms). if k = code then (k, ms @ [n]) else (k, ms)) = fst"
  by (auto simp: fun_eq_iff)

lemma map_of_reducer:
  "map_of (group_reducer g n) c =
     (if airportCode n = Some c
      then Some ((case map_of g c of None \<Rightarrow> [] | Some ms \<Rightarrow> ms) @ [n])
      else map_of g c)"
  by (auto simp: group_reducer_def Let_def map_of_push map_add_def split: option.splits)

lemma distinct_reducer:
  assumes "distinct (map fst g)"
  shows "distinct (map fst (group_reducer g n))"
  using assms
  by (auto simp: group_reducer_def Let_def fst_push map_of_eq_None_iff split: option.splits)

lemma distinct_foldl:
  "distinct (map fst g) \<Longrightarrow> distinct (map fst (foldl group_reducer g ns))"
  by (induction ns arbitrary: g) (simp_all add: distinct_reducer)

lemma map_of_foldl:
  "map_of (foldl group_reducer g ns) c =
     (case map_of g c of
        None \<Rightarrow> if filter (\<lambda>n. airportCode n = Some c) ns = [] then None
                else Some (filter (\<lambda>n. airportCode n = Some c) ns)
      | Some ms \<Rightarrow> Some (ms @ filter (\<lambda>n. airportCode n = Some c) ns))"
proof (induction ns arbitrary: g)
  case Nil
  then show ?case by (simp split: option.splits)
next
  case (Cons n ns)
  show ?case
    by (simp add: Cons.IH map_of_reducer split: option.splits)
qed

lemma map_of_airportGroups:
  "map_of (airportGroups ns) c =
     (if filter (\<lambda>n. airportCode n = Some c) ns = [] then None
      else Some (filter (\<lambda>n. airportCode n = Some c) ns))"
  by (simp add: airportGroups_def map_of_foldl)

lemma distinct_airportGroups: "distinct (map fst (airportGroups ns))"
  by (simp add: airportGroups_def distinct_foldl)

lemma group_members:
  assumes "(c, ms) \<in> set (airportGroups ns)"
  shows "ms = filter (\<lambda>n. airportCode n = Some c) ns \<and> ms \<noteq> []"
proof -
  have "map_of (airportGroups ns) c = Some ms"
    using assms distinct_airportGroups by simp
  then show ?thesis by (simp add: map_of_airportGroups split: if_splits)
qed

lemma group_member_airport:
  assumes "airportCode m = Some c"
  shows "\<exists>a. airport m = Some a \<and> a \<noteq> [] \<and> toUpperCase a = c"
  using assms by (auto simp: airportCode_def split: option.splits if_splits)

lemma find_airport_None:
  "find_airport airportsData code = None \<longleftrightarrow>
     (\<forall>a \<in> set airportsData. map_option toUpperCase (iata a) \<noteq> Some code
        \<and> map_option toUpperCase (icao a) \<noteq> Some code)"
  by (auto simp: find_airport_def find_None_iff airport_matches_def)

lemma renderGroup_unmatched:
  "find_airport airportsData code = None \<Longrightarrow> renderGroup airportsData (code, ms) = None"
  by (simp add: renderGroup_def)

lemma toUpperCase_examples:
  "toUpperCase ''sfo'' = ''SFO''" "toUpperCase ''SFO'' = ''SFO''"
  "toUpperCase ''xyz'' = ''XYZ''" "toUpperCase ''KSFO'' = ''KSFO''"
  "toUpperCase ''UIO'' = ''UIO''" "toUpperCase ''SEQM'' = ''SEQM''"
  by code_simp+

lemma example_groups:
  "airportGroups example_persons =
     [(''SFO'', [person_with_airport (Some ''sfo''), person_with_airport (Some ''SFO'')]),
      (''XYZ'', [person_with_airport (Some ''xyz'')])]"
  by (simp add: airportGroups_def group_reducer_def airportCode_def example_persons_def
      person_with_airport_def toUpperCase_examples)

lemma example_find:
  "find_airport [sfo_record] ''SFO'' = Some sfo_record" "find_airport [sfo_record] ''XYZ'' = None"
  by (simp_all add: find_airport_def airport_matches_def sfo_record_def toUpperCase_examples)

lemma example_rendered:
  "map (renderGroup [sfo_record]) (airportGroups example_persons) =
     [Some [make_dot (latLonToVec3_default 37.62 (- 122.38)) 2 (person_with_airport (Some ''sfo''), 0),
            make_dot (latLonToVec3_default 37.62 (- 122.38)) 2 (person_with_airport (Some ''SFO''), 1)],
      None]"
proof -
  have z: "[0..<2] = [0, Suc 0]" by (simp add: upt_rec)
  show ?thesis
    by (simp add: example_groups renderGroup_def example_find)
       (simp add: sfo_record_def falsy_number_def z Let_def numeral_2_eq_2)
qed

text \<open>
  Claim C5. The grouping collects the persons by uppercased airport code, each group in
  the order of the input: the group of a code is the sublist of the persons with that
  code, there is one group per code, and no group is empty. A person whose code is
  \<open>null\<close> or missing has no code and is in no group: every member of a group has an
  airport string that uppercases to the group's code. A group whose code equals the
  uppercased IATA or ICAO field of no airport record yields no markers. For the persons
  \<open>sfo\<close>, \<open>SFO\<close>, \<open>null\<close>, \<open>xyz\<close> and a table that holds only SFO, the result is the one
  group SFO with its two members.
\<close>

theorem airportGroups_stable:
  "distinct (map fst (airportGroups neighbors))
   \<and> map_of (airportGroups neighbors) code =
        (if filter (\<lambda>n. airportCode n = Some code) neighbors = [] then None
         else Some (filter (\<lambda>n. airportCode n = Some code) neighbors))
   \<and> ((code, members) \<in> set (airportGroups neighbors) \<longrightarrow>
         members = filter (\<lambda>n. airportCode n = Some code) neighbors \<and> members \<noteq> []
         \<and> (\<forall>m \<in> set members. \<exists>a. airport m = Some a \<and> toUpperCase a = code))
   \<and> (airport person = None \<longrightarrow> airportCode person = None)
   \<and> ((\<forall>a \<in> set airportsData. map_option toUpperCase (iata a) \<noteq> Some code
           \<and> map_option toUpperCase (icao a) \<noteq> Some code) \<longrightarrow>
         renderGroup airportsData (code, members) = None)
   \<and> airportGroups example_persons =
        [(''SFO'', [person_with_airport (Some ''sfo''), person_with_airport (Some ''SFO'')]),
         (''XYZ'', [person_with_airport (Some ''xyz'')])]
   \<and> map (map_option (map key)) (map (renderGroup [sfo_record]) (airportGroups example_persons)) =
        [Some [JUndefined, JUndefined], None]
   \<and> length (AirportDots example_persons [sfo_record]) = 2"
proof (intro conjI impI)
  show "distinct (map fst (airportGroups neighbors))" by (rule distinct_airportGroups)
  show "map_of (airportGroups neighbors) code =
        (if filter (\<lambda>n. airportCode n = Some code) neighbors = [] then None
         else Some (filter (\<lambda>n. airportCode n = Some code) neighbors))"
    by (rule map_of_airportGroups)
  show "airportGroups example_persons =
        [(''SFO'', [person_with_airport (Some ''sfo''), person_with_airport (Some ''SFO'')]),
         (''XYZ'', [person_with_airport (Some ''xyz'')])]"
    by (rule example_groups)
  show "map (map_option (map key)) (map (renderGroup [sfo_record]) (airportGroups example_persons)) =
        [Some [JUndefined, JUndefined], None]"
    by (simp add: example_rendered make_dot_def person_with_airport_def)
  show "length (AirportDots example_persons [sfo_record]) = 2"
    by (simp add: AirportDots_def example_rendered flat_filter_def)
next
  assume "airport person = None"
  then show "airportCode person = None" by (simp add: airportCode_def)
next
  assume "\<forall>a \<in> set airportsData. map_option toUpperCase (iata a) \<noteq> Some code
           \<and> map_option toUpperCase (icao a) \<noteq> Some code"
  then have "find_airport airportsData code = None" by (simp only: find_airport_None)
  then show "renderGroup airportsData (code, members) = None" by (rule renderGroup_unmatched)
next
  assume g: "(code, members) \<in> set (airportGroups neighbors)"
  from group_members [OF g]
  show "members = filter (\<lambda>n. airportCode n = Some code) neighbors" and "members \<noteq> []"
    by blast+
  show "\<forall>m \<in> set members. \<exists>a. airport m = Some a \<and> toUpperCase a = code"
  proof
    fix m assume "m \<in> set members"
    then have "airportCode m = Some code" using group_members [OF g] by auto
    then show "\<exists>a. airport m = Some a \<and> toUpperCase a = code"
      using group_member_airport by blast
  qed
qed

theorem airportGroups_stable_witness:
  "(''SFO'', [person_with_airport (Some ''sfo''), person_with_airport (Some ''SFO'')])
      \<in> set (airportGroups example_persons)
   \<and> [person_with_airport (Some ''sfo''), person_with_airport (Some ''SFO'')] =
        filter (\<lambda>n. airportCode n = Some ''SFO'') example_persons
   \<and> airport (person_with_airport None) = None
   \<and> airportCode (person_with_airport None) = None
   \<and> map_option toUpperCase (iata sfo_record) \<noteq> Some ''XYZ''
   \<and> map_option toUpperCase (icao sfo_record) \<noteq> Some ''XYZ''
   \<and> renderGroup [sfo_record] (''XYZ'', [person_with_airport (Some ''xyz'')]) = None"
proof -
  let ?sfo = "[person_with_airport (Some ''sfo''), person_with_airport (Some ''SFO'')]"
  have mem: "(''SFO'', ?sfo) \<in> set (airportGroups example_persons)"
    by (simp add: example_groups)
  have none: "airport (person_with_airport None) = None"
    by (simp add: person_with_airport_def)
  have codes: "map_option toUpperCase (iata sfo_record) \<noteq> Some ''XYZ''"
      "map_option toUpperCase (icao sfo_record) \<noteq> Some ''XYZ''"
    by (simp_all add: sfo_record_def toUpperCase_examples)
  note t1 = airportGroups_stable [of example_persons "''SFO''" ?sfo "person_with_airport None"
      "[sfo_record]"]
  note t2 = airportGroups_stable [of example_persons "''XYZ''" "[person_with_airport (Some ''xyz'')]"
      "person_with_airport None" "[sfo_record]"]
  have a: "?sfo = filter (\<lambda>n. airportCode n = Some ''SFO'') example_persons"
    using t1 mem by blast
  have b: "airportCode (person_with_airport None) = None" using t1 none by blast
  have c: "renderGroup [sfo_record] (''XYZ'', [person_with_airport (Some ''xyz'')]) = None"
    using t2 codes by simp
  show ?thesis by (intro conjI) (rule mem a none b codes c)+
qed

section \<open>Data join: empty inputs and dropped groups\<close>

lemma find_airport_empty: "find_airport [] code = None"
  by (simp add: find_airport_def)

lemma flat_filter_all_None: "flat_filter (map (\<lambda>g. None) gs) = []"
  by (simp add: flat_filter_def)

lemma renderGroup_empty_table: "renderGroup [] g = None"
  by (cases g) (simp add: renderGroup_def find_airport_empty)

text \<open>
  Claim C7. An empty person list yields no markers, whatever the airport table, and an
  empty airport table yields no markers, whatever the persons; \<open>AirportDots\<close> returns
  the empty list in both cases, it has no error result on such inputs.
\<close>

theorem AirportDots_empty:
  "AirportDots [] airportsData = [] \<and> AirportDots neighbors [] = []"
proof
  show "AirportDots [] airportsData = []"
    by (simp add: AirportDots_def airportGroups_def flat_filter_def)
  have "map (renderGroup []) (airportGroups neighbors) = map (\<lambda>g. None) (airportGroups neighbors)"
    by (simp add: renderGroup_empty_table)
  then show "AirportDots neighbors [] = []"
    by (simp only: AirportDots_def flat_filter_all_None)
qed

text \<open>
  Claim C9. A group whose matched airport record has latitude 0 or longitude 0 is
  dropped: the guard takes the number 0 for a missing coordinate, and the group yields
  the same \<open>null\<close>, hence no markers, as a group for which the table has no airport.
\<close>

theorem renderGroup_zero_coordinate_dropped:
  assumes "find_airport airportsData code = Some a"
      and "lat a = Some 0 \<or> lon a = Some 0"
      and "find_airport otherData code = None"
  shows "renderGroup airportsData (code, members) = None
     \<and> renderGroup airportsData (code, members) = renderGroup otherData (code, members)
     \<and> flat_filter [renderGroup airportsData (code, members)] = []"
proof -
  have "falsy_number (lat a) \<or> falsy_number (lon a)"
    using assms(2) by (auto simp: falsy_number_def)
  then have dropped: "renderGroup airportsData (code, members) = None"
    using assms(1) by (simp add: renderGroup_def)
  moreover have "renderGroup otherData (code, members) = None"
    using assms(3) by (rule renderGroup_unmatched)
  ultimately show ?thesis by (simp add: flat_filter_def)
qed

theorem renderGroup_zero_coordinate_dropped_witness:
  "find_airport [equator_record] ''UIO'' = Some equator_record
   \<and> lat equator_record = Some 0
   \<and> find_airport [] ''UIO'' = None
   \<and> renderGroup [equator_record] (''UIO'', [person_with_airport (Some ''uio'')]) = None
   \<and> renderGroup [equator_record] (''UIO'', [person_with_airport (Some ''uio'')])
       = renderGroup [] (''UIO'', [person_with_airport (Some ''uio'')])"
proof -
  have f: "find_airport [equator_record] ''UIO'' = Some equator_record"
    by (simp add: find_airport_def airport_matches_def equator_record_def toUpperCase_examples)
  have z: "lat equator_record = Some 0" by (simp add: equator_record_def)
  have e: "find_airport [] ''UIO'' = None" by (rule find_airport_empty)
  have z': "lat equator_record = Some 0 \<or> lon equator_record = Some 0" using z by simp
  note t = renderGroup_zero_coordinate_dropped [OF f z' e, of "[person_with_airport (Some ''uio'')]"]
  show ?thesis using f z e t by metis
qed

section \<open>Data join: the positions of a rendered group\<close>

text \<open>
  The positions of the dots of a rendered group are the layout's positions around the
  projected airport. The guard has dropped latitude 0, so for a latitude in [-90, 90]
  the base is off the plane \<open>y = 0\<close> and the dots of the group are pairwise distinct.
\<close>

lemma cos_zero_in_range:
  fixes x :: real
  assumes "0 \<le> x" and "x \<le> pi" and "cos x = 0"
  shows "x = pi / 2"
proof -
  have c: "cos x = cos (pi / 2)" using assms(3) by (simp only: cos_pi_half)
  have l: "0 \<le> pi / 2" and h: "pi / 2 \<le> pi" by simp_all
  show ?thesis by (rule cos_inj_pi [OF assms(1,2) l h c])
qed

lemma latLonToVec3_y_nonzero:
  fixes la lo r :: real
  assumes "- 90 \<le> la" and "la \<le> 90" and "la \<noteq> 0" and "r \<noteq> 0"
  shows "fst (snd (latLonToVec3 la lo r)) \<noteq> 0"
proof -
  let ?phi = "(90 - la) * (pi / 180)"
  have lo: "0 \<le> ?phi" using assms(2) by simp
  have "(90 - la) * (pi / 180) \<le> 180 * (pi / 180)"
    using assms(1) by (intro mult_right_mono) simp_all
  then have hi: "?phi \<le> pi" by simp
  have "cos ?phi \<noteq> 0"
  proof
    assume "cos ?phi = 0"
    with lo hi have "?phi = pi / 2" by (rule cos_zero_in_range)
    then have "(90 - la) * pi = 90 * pi" by (simp add: field_simps)
    then have "90 - la = 90" by (simp only: mult_cancel_right) simp
    then show False using assms(3) by simp
  qed
  then show ?thesis using assms(4) by (simp add: latLonToVec3_def Let_def)
qed

lemma map_snd_zip_fun:
  "length xs = length ys \<Longrightarrow> map (\<lambda>x. f (snd x)) (zip xs ys) = map f ys"
  by (induction xs ys rule: list_induct2) simp_all

lemma positions_of_dots:
  "map (position \<circ> make_dot base (length ms)) (zip ms [0..<length ms])
     = offsetPositions base (length ms)"
  using map_snd_zip_fun [of ms "[0..<length ms]"
      "\<lambda>index. calculateOffsetPosition base index (length ms)"]
  by (simp add: make_dot_def comp_def offsetPositions_def)

lemma renderGroup_positions:
  assumes "renderGroup airportsData (code, ms) = Some dots"
  shows "\<exists>a la lo. find_airport airportsData code = Some a \<and> lat a = Some la \<and> lon a = Some lo
      \<and> la \<noteq> 0 \<and> lo \<noteq> 0
      \<and> map position dots = offsetPositions (latLonToVec3_default la lo) (length ms)"
  using assms
  by (auto simp: renderGroup_def falsy_number_def Let_def positions_of_dots
      split: option.splits if_splits)

lemma renderGroup_distinct:
  assumes "renderGroup airportsData (code, ms) = Some dots"
    and "find_airport airportsData code = Some a" and "lat a = Some la"
    and "- 90 \<le> la" and "la \<le> 90"
  shows "distinct (map position dots)"
proof -
  from renderGroup_positions [OF assms(1)] assms(2,3)
  obtain lo where la: "la \<noteq> 0"
    and p: "map position dots = offsetPositions (latLonToVec3_default la lo) (length ms)"
    by auto
  have "fst (snd (latLonToVec3_default la lo)) \<noteq> 0"
    unfolding latLonToVec3_default_def
    using assms(4,5) la by (intro latLonToVec3_y_nonzero) simp_all
  then show ?thesis unfolding p by (rule offsetPositions_distinct)
qed

section \<open>The neighbors API handler\<close>

lemma js_or_defined: "b \<noteq> JUndefined \<Longrightarrow> js_or a b \<noteq> JUndefined"
  by (cases a) (simp_all add: js_or_def)

lemma get_prop_absent: "k \<notin> set (map fst obj) \<Longrightarrow> get_prop obj k = JUndefined"
  by (simp add: get_prop_def map_of_eq_None_iff [THEN iffD2])

lemma response_record_keys:
  "map fst (response_record r) =
     [''id'', ''pfp'', ''slackId'', ''slackFullName'', ''githubUsername'',
      ''totalTimeCombinedHours'', ''totalTimeHackatimeHours'', ''totalTimeStopwatchHours'',
      ''fullName'', ''totalCheckedTime'']
     @ (if f_airport r = JUndefined then [] else [''airport''])"
  by (simp add: response_record_def to_neighbor_def js_or_defined)

lemma response_record_no_stipend:
  "''approvedFlightStipend'' \<notin> set (map fst (response_record r))"
  by (simp add: response_record_keys)

lemma handler_success:
  assumes "handler method queried = (200, Neighbors ns)"
  shows "\<exists>rs. queried = Some rs \<and> ns = map response_record rs"
  using assms by (auto simp: handler_def split: if_splits option.splits)

text \<open>
  Claim C10, as stated: every neighbor record of the handler's success response has
  exactly the eleven keys \<open>id\<close>, \<open>pfp\<close>, \<open>slackId\<close>, \<open>slackFullName\<close>,
  \<open>githubUsername\<close>, \<open>totalTimeCombinedHours\<close>, \<open>totalTimeHackatimeHours\<close>,
  \<open>totalTimeStopwatchHours\<close>, \<open>fullName\<close>, \<open>totalCheckedTime\<close> and \<open>airport\<close>. It
  fails for a record that has no airport: line 43 passes \<open>record.fields.airport\<close> on
  without a default, and the serialised record has the first ten keys only.
\<close>

theorem handler_airportless_record_keys:
  "handler ''GET'' (Some [airportless_airtable_record]) =
       (200, Neighbors [response_record airportless_airtable_record])
   \<and> map fst (response_record airportless_airtable_record) =
       [''id'', ''pfp'', ''slackId'', ''slackFullName'', ''githubUsername'',
        ''totalTimeCombinedHours'', ''totalTimeHackatimeHours'', ''totalTimeStopwatchHours'',
        ''fullName'', ''totalCheckedTime'']
   \<and> map fst (response_record airportless_airtable_record) \<noteq>
       [''id'', ''pfp'', ''slackId'', ''slackFullName'', ''githubUsername'',
        ''totalTimeCombinedHours'', ''totalTimeHackatimeHours'', ''totalTimeStopwatchHours'',
        ''fullName'', ''totalCheckedTime'', ''airport'']"
  by (simp add: handler_def response_record_keys airportless_airtable_record_def)

text \<open>
  Claim C10, amended. Every neighbor record of the handler's success response has the
  ten keys \<open>id\<close>, \<open>pfp\<close>, \<open>slackId\<close>, \<open>slackFullName\<close>, \<open>githubUsername\<close>,
  \<open>totalTimeCombinedHours\<close>, \<open>totalTimeHackatimeHours\<close>, \<open>totalTimeStopwatchHours\<close>,
  \<open>fullName\<close> and \<open>totalCheckedTime\<close>, in this order, followed by \<open>airport\<close> exactly
  when the Airtable record has an airport, and no other key; never
  \<open>approvedFlightStipend\<close>: reading that property gives \<open>undefined\<close>, so the globe's
  colour rule never yields green on such a record.
\<close>

theorem handler_never_green:
  assumes "handler method queried = (200, Neighbors ns)" and "obj \<in> set ns"
  shows "(\<exists>r. obj = response_record r
            \<and> map fst obj =
                [''id'', ''pfp'', ''slackId'', ''slackFullName'', ''githubUsername'',
                 ''totalTimeCombinedHours'', ''totalTimeHackatimeHours'',
                 ''totalTimeStopwatchHours'', ''fullName'', ''totalCheckedTime'']
                @ (if f_airport r = JUndefined then [] else [''airport'']))
     \<and> ''approvedFlightStipend'' \<notin> set (map fst obj)
     \<and> get_prop obj ''approvedFlightStipend'' = JUndefined
     \<and> markerColor (neighbor_of_object obj) \<noteq> ''#00ff00''"
proof -
  from handler_success [OF assms(1)] assms(2) obtain r where obj: "obj = response_record r"
    by auto
  have absent: "''approvedFlightStipend'' \<notin> set (map fst obj)"
    unfolding obj by (rule response_record_no_stipend)
  then have undef: "get_prop obj ''approvedFlightStipend'' = JUndefined"
    by (rule get_prop_absent)
  have colour: "markerColor (neighbor_of_object obj) \<noteq> ''#00ff00''"
    by (simp add: markerColor_def neighbor_of_object_def undef)
  have keys: "\<exists>r. obj = response_record r
            \<and> map fst obj =
                [''id'', ''pfp'', ''slackId'', ''slackFullName'', ''githubUsername'',
                 ''totalTimeCombinedHours'', ''totalTimeHackatimeHours'',
                 ''totalTimeStopwatchHours'', ''fullName'', ''totalCheckedTime'']
                @ (if f_airport r = JUndefined then [] else [''airport''])"
    using obj response_record_keys by blast
  show ?thesis by (intro conjI) (rule keys absent undef colour)+
qed

theorem handler_never_green_witness:
  "handler ''GET'' (Some [example_airtable_record]) =
       (200, Neighbors [response_record example_airtable_record])
   \<and> response_record example_airtable_record \<in> set [response_record example_airtable_record]
   \<and> map fst (response_record example_airtable_record) =
       [''id'', ''pfp'', ''slackId'', ''slackFullName'', ''githubUsername'',
        ''totalTimeCombinedHours'', ''totalTimeHackatimeHours'', ''totalTimeStopwatchHours'',
        ''fullName'', ''totalCheckedTime'', ''airport'']
   \<and> get_prop (response_record example_airtable_record) ''approvedFlightStipend'' = JUndefined
   \<and> markerColor (neighbor_of_object (response_record example_airtable_record)) = ''#ffff00''"
proof -
  let ?obj = "response_record example_airtable_record"
  have h: "handler ''GET'' (Some [example_airtable_record]) = (200, Neighbors [?obj])"
    by (simp add: handler_def)
  have m: "?obj \<in> set [?obj]" by simp
  note t = handler_never_green [OF h m]
  have k: "map fst ?obj =
       [''id'', ''pfp'', ''slackId'', ''slackFullName'', ''githubUsername'',
        ''totalTimeCombinedHours'', ''totalTimeHackatimeHours'', ''totalTimeStopwatchHours'',
        ''fullName'', ''totalCheckedTime'', ''airport'']"
    by (simp add: response_record_keys example_airtable_record_def)
  have u: "get_prop ?obj ''approvedFlightStipend'' = JUndefined" using t by blast
  have hours: "totalTimeHackatimeHours (neighbor_of_object ?obj) = Some 150"
    by (simp add: neighbor_of_object_def response_record_def to_neighbor_def get_prop_def
        number_or_none_def example_airtable_record_def Math_round_def or_zero_def js_or_def)
  have g: "markerColor (neighbor_of_object ?obj) \<noteq> ''#00ff00''" using t by blast
  have c: "markerColor (neighbor_of_object ?obj) = ''#ffff00''"
    using g hours by (simp add: markerColor_def hours_ge_def split: if_splits)
  show ?thesis by (intro conjI) (rule h m k u c)+
qed

end
